theory Spec2Isabelle
  imports Complex_Main
begin

section \<open>JavaScript numbers\<close>

text \<open>
  The measurement pipelines compute on JavaScript numbers. A number is modelled as an
  exact real or one of the three IEEE special values, so that a division by zero and
  an undefined product are visible as \<open>PInf\<close>, \<open>NInf\<close> and \<open>NaN\<close> instead of
  HOL's \<open>a / 0 = 0\<close>. The operators \<open>+\<close>, \<open>-\<close>, \<open>*\<close> and \<open>/\<close> on \<open>number\<close> give the
  exact result; the result a binary64 operation stores is that result rounded
  (\<open>rounded\<close>, below). The ticks are written with the exact operators: their theorems
  are about which branch is taken, which state is written and which special value
  appears, and a finite value they give is the value before rounding. Where a
  statement is about the digits of a stored value, the formula is evaluated with every
  operation rounded. The sign of zero is not modelled; every divisor
  of the pipelines is a positive constant, a square root, a pixel count or a pixel
  count over a positive constant, so a zero divisor is the positive zero and
  \<open>a / 0\<close> has the sign of \<open>a\<close>.
\<close>

datatype number = Fin real | PInf | NInf | NaN

definition signed_inf :: "real \<Rightarrow> number" where
  "signed_inf s = (if 0 < s then PInf else if s < 0 then NInf else NaN)"

fun sign :: "number \<Rightarrow> real" where
  "sign (Fin a) = sgn a"
| "sign PInf = 1"
| "sign NInf = - 1"
| "sign NaN = 0"

instantiation number :: "{plus, minus, times, inverse, uminus}"
begin

fun uminus_number :: "number \<Rightarrow> number" where
  "uminus_number (Fin a) = Fin (- a)"
| "uminus_number PInf = NInf"
| "uminus_number NInf = PInf"
| "uminus_number NaN = NaN"

fun plus_number :: "number \<Rightarrow> number \<Rightarrow> number" where
  "plus_number NaN _ = NaN"
| "plus_number _ NaN = NaN"
| "plus_number (Fin a) (Fin b) = Fin (a + b)"
| "plus_number (Fin a) b = b"
| "plus_number a (Fin b) = a"
| "plus_number a b = (if a = b then a else NaN)"

definition minus_number :: "number \<Rightarrow> number \<Rightarrow> number" where
  "minus_number a b = a + (- b)"

fun times_number :: "number \<Rightarrow> number \<Rightarrow> number" where
  "times_number NaN _ = NaN"
| "times_number _ NaN = NaN"
| "times_number (Fin a) (Fin b) = Fin (a * b)"
| "times_number a b = signed_inf (sign a * sign b)"

fun divide_number :: "number \<Rightarrow> number \<Rightarrow> number" where
  "divide_number NaN _ = NaN"
| "divide_number _ NaN = NaN"
| "divide_number (Fin a) (Fin b) = (if b = 0 then signed_inf a else Fin (a / b))"
| "divide_number (Fin a) b = Fin 0"
| "divide_number a (Fin b) = (if b < 0 then - a else a)"
| "divide_number a b = NaN"

definition inverse_number :: "number \<Rightarrow> number" where
  "inverse_number a = divide (Fin 1) a"

instance ..

end

text \<open>\<open>Math.sqrt\<close>, \<open>Math.tan\<close>, \<open>Math.PI\<close> and the global \<open>isFinite\<close>.\<close>

fun Math_sqrt :: "number \<Rightarrow> number" where
  "Math_sqrt (Fin a) = (if a < 0 then NaN else Fin (sqrt a))"
| "Math_sqrt PInf = PInf"
| "Math_sqrt NInf = NaN"
| "Math_sqrt NaN = NaN"

fun Math_tan :: "number \<Rightarrow> number" where
  "Math_tan (Fin a) = Fin (tan a)"
| "Math_tan _ = NaN"

definition Math_PI :: number where
  "Math_PI = Fin pi"

fun isFinite :: "number \<Rightarrow> bool" where
  "isFinite (Fin a) = True"
| "isFinite _ = False"

subsection \<open>Binary64 rounding\<close>





section \<open>Data model\<close>

text \<open>
  A \<open>NormalizedLandmark\<close> of the detection library; a detection result holds one
  landmark list per detected subject. The pipelines test \<open>results.landmarks\<close> for
  truthiness, so the field is optional in the model.
\<close>

record landmark =
  x :: number
  y :: number
  z :: number

record landmarker_result =
  landmarks :: "landmark list list option"

text \<open>The subjects of a result: none when the landmark list is missing.\<close>

definition detected_subjects :: "landmarker_result \<Rightarrow> landmark list list" where
  "detected_subjects results = (case landmarks results of None \<Rightarrow> [] | Some subjects \<Rightarrow> subjects)"

text \<open>The part of the \<open>HTMLVideoElement\<close> the detection loops read.\<close>

record video =
  paused :: bool
  ended :: bool
  videoWidth :: nat
  videoHeight :: nat
  currentTime :: real

text \<open>
  The state a \<open>Home\<close> component keeps between ticks: the React state \<open>wingspan\<close> and
  \<open>distance\<close> (\<open>null\<close> is \<open>None\<close>; the hand-distance page declares only \<open>distance\<close>,
  the fixed-distance page only \<open>wingspan\<close>, the pose page both), the closure variable
  \<open>lastVideoTime\<close> and the canvas size. \<open>detectForVideo_calls\<close> is a ghost counter of
  the calls to \<open>detectForVideo\<close>.
\<close>

record home =
  wingspan :: "number option"
  distance :: "number option"
  lastVideoTime :: real
  canvas_width :: nat
  canvas_height :: nat
  detectForVideo_calls :: nat

text \<open>
  A tick that returns (\<open>Inr\<close>) has rescheduled itself. Reading a property of
  \<open>undefined\<close> throws; a tick that throws (\<open>Inl\<close>) rejects its promise and does not
  reschedule itself, and the state it had reached is kept with the error.
\<close>

datatype error = TypeError

type_synonym outcome = "error \<times> home + home"

text \<open>\<open>xs[i]\<close> on a JavaScript array: \<open>undefined\<close> out of range.\<close>

definition index :: "'a list \<Rightarrow> nat \<Rightarrow> 'a option" where
  "index xs i = (if i < length xs then Some (xs ! i) else None)"

text \<open>
  The state before the first tick: nothing measured, \<open>lastVideoTime = -1\<close>, and the
  default size of a canvas element.
\<close>

definition initial :: home where
  "initial = \<lparr>wingspan = None, distance = None, lastVideoTime = - 1,
     canvas_width = 300, canvas_height = 150, detectForVideo_calls = 0\<rparr>"

section \<open>Pose page: wingspan from a known shoulder width\<close>

text \<open>
  The page of \<open>src/unnamed/part_000\<close>. The constants and the local computations of
  \<open>detectPose\<close> (lines 150 to 173) keep their names; the frame size is the canvas size
  the tick has just copied from the video.
\<close>

definition ASSUMED_SHOULDER_WIDTH_CM :: number where
  "ASSUMED_SHOULDER_WIDTH_CM = Fin 45"

definition fovDegrees :: number where
  "fovDegrees = Fin 70"

definition shoulderWidthPixels :: "landmark \<Rightarrow> landmark \<Rightarrow> nat \<Rightarrow> nat \<Rightarrow> number" where
  "shoulderWidthPixels leftShoulder rightShoulder w h =
     (let shoulderDx = (x rightShoulder - x leftShoulder) * Fin (real w);
          shoulderDy = (y rightShoulder - y leftShoulder) * Fin (real h)
      in Math_sqrt (shoulderDx * shoulderDx + shoulderDy * shoulderDy))"

definition focalLengthPixels :: "nat \<Rightarrow> number" where
  "focalLengthPixels w =
     Fin (real w) / (Fin 2 * Math_tan ((fovDegrees / Fin 2) * (Math_PI / Fin 180)))"

definition calculatedDistance :: "number \<Rightarrow> number \<Rightarrow> number" where
  "calculatedDistance focalLength shoulderWidth =
     (ASSUMED_SHOULDER_WIDTH_CM * focalLength) / shoulderWidth"

definition wingspanPixels :: "landmark \<Rightarrow> landmark \<Rightarrow> nat \<Rightarrow> nat \<Rightarrow> number" where
  "wingspanPixels leftWrist rightWrist w h =
     (let wristDx = (x rightWrist - x leftWrist) * Fin (real w);
          wristDy = (y rightWrist - y leftWrist) * Fin (real h)
      in Math_sqrt (wristDx * wristDx + wristDy * wristDy))"

definition wingspanCm :: "number \<Rightarrow> number \<Rightarrow> number \<Rightarrow> number" where
  "wingspanCm pixels calculated focalLength = (pixels * calculated) / focalLength"



text \<open>
  The body of the branch for a detected pose (lines 144 to 174): the shoulders are
  read first and the distance is set, then the wrists are read and the wingspan is
  set. The drawing calls around them do not touch the state.
\<close>

definition measurePose :: "landmark list \<Rightarrow> home \<Rightarrow> outcome" where
  "measurePose lms st =
     (case (index lms 11, index lms 12) of
        (Some leftShoulder, Some rightShoulder) \<Rightarrow>
          (let w = canvas_width st; h = canvas_height st;
               focalLength = focalLengthPixels w;
               calculated = calculatedDistance focalLength
                              (shoulderWidthPixels leftShoulder rightShoulder w h);
               st = st\<lparr>distance := Some calculated\<rparr>
           in case (index lms 15, index lms 16) of
                (Some leftWrist, Some rightWrist) \<Rightarrow>
                  Inr (st\<lparr>wingspan :=
                    Some (wingspanCm (wingspanPixels leftWrist rightWrist w h) calculated focalLength)\<rparr>)
              | _ \<Rightarrow> Inl (TypeError, st))
      | _ \<Rightarrow> Inl (TypeError, st))"

definition detectPose :: "video \<Rightarrow> landmarker_result \<Rightarrow> home \<Rightarrow> outcome" where
  "detectPose v results st =
     (if paused v \<or> ended v then Inr st
      else
        let st = st\<lparr>canvas_width := videoWidth v, canvas_height := videoHeight v\<rparr>
        in if currentTime v \<noteq> lastVideoTime st then
             (let st = st\<lparr>lastVideoTime := currentTime v,
                          detectForVideo_calls := Suc (detectForVideo_calls st)\<rparr>
              in case landmarks results of
                   Some (lms # _) \<Rightarrow> measurePose lms st
                 | _ \<Rightarrow> Inr (st\<lparr>wingspan := None, distance := None\<rparr>))
           else Inr st)"

section \<open>Hand pages\<close>

text \<open>
  The hand-distance page (the first component of \<open>src/app/page.tsx\<close>, lines 1 to 232):
  distance between the two middle finger tips.
\<close>

definition distanceCm :: "landmark \<Rightarrow> landmark \<Rightarrow> nat \<Rightarrow> nat \<Rightarrow> number" where
  "distanceCm finger1 finger2 w h =
     (let dx = (x finger2 - x finger1) * Fin (real w);
          dy = (y finger2 - y finger1) * Fin (real h);
          dz = (z finger2 - z finger1) * Fin (real w);
          distancePixels = Math_sqrt (dx * dx + dy * dy + dz * dz)
      in (distancePixels / Fin (real w)) * Fin 50)"

definition detectHands :: "video \<Rightarrow> landmarker_result \<Rightarrow> home \<Rightarrow> outcome" where
  "detectHands v results st =
     (if paused v \<or> ended v then Inr st
      else
        let st = st\<lparr>canvas_width := videoWidth v, canvas_height := videoHeight v\<rparr>
        in if currentTime v \<noteq> lastVideoTime st then
             (let st = st\<lparr>lastVideoTime := currentTime v,
                          detectForVideo_calls := Suc (detectForVideo_calls st)\<rparr>
              in case landmarks results of
                   None \<Rightarrow> Inr st
                 | Some hands \<Rightarrow>
                     if length hands = 2 then
                       (case (index (hands ! 0) 12, index (hands ! 1) 12) of
                          (Some finger1, Some finger2) \<Rightarrow>
                            Inr (st\<lparr>distance := Some
                              (distanceCm finger1 finger2 (canvas_width st) (canvas_height st))\<rparr>)
                        | _ \<Rightarrow> Inl (TypeError, st))
                     else Inr (st\<lparr>distance := None\<rparr>))
           else Inr st)"

text \<open>
  The fixed-distance page (the second component of \<open>src/app/page.tsx\<close>, lines 233 to
  489): wingspan at an assumed camera distance. Its loop is called \<open>detectHands\<close> as
  well; here it is \<open>detectHands_wingspan\<close>, and its \<open>wingspanCm\<close> is
  \<open>wingspanCm_fixed\<close>.
\<close>

definition CAMERA_DISTANCE :: number where
  "CAMERA_DISTANCE = Fin 150"

definition distancePixels :: "landmark \<Rightarrow> landmark \<Rightarrow> nat \<Rightarrow> nat \<Rightarrow> number" where
  "distancePixels middleFinger1 middleFinger2 w h =
     (let dx = (x middleFinger2 - x middleFinger1) * Fin (real w);
          dy = (y middleFinger2 - y middleFinger1) * Fin (real h)
      in Math_sqrt (dx * dx + dy * dy))"

definition fovWidthCm :: number where
  "fovWidthCm =
     Fin 2 * CAMERA_DISTANCE * Math_tan ((fovDegrees / Fin 2) * (Math_PI / Fin 180))"

definition pixelToCmRatio :: "nat \<Rightarrow> number" where
  "pixelToCmRatio w = fovWidthCm / Fin (real w)"

definition wingspanCm_fixed :: "number \<Rightarrow> nat \<Rightarrow> number" where
  "wingspanCm_fixed pixels w = pixels * pixelToCmRatio w"

definition detectHands_wingspan :: "video \<Rightarrow> landmarker_result \<Rightarrow> home \<Rightarrow> outcome" where
  "detectHands_wingspan v results st =
     (if paused v \<or> ended v then Inr st
      else
        let st = st\<lparr>canvas_width := videoWidth v, canvas_height := videoHeight v\<rparr>
        in if currentTime v \<noteq> lastVideoTime st then
             (let st = st\<lparr>lastVideoTime := currentTime v,
                          detectForVideo_calls := Suc (detectForVideo_calls st)\<rparr>
              in case landmarks results of
                   None \<Rightarrow> Inr st
                 | Some hands \<Rightarrow>
                     if length hands = 2 then
                       (case (index (hands ! 0) 12, index (hands ! 1) 12) of
                          (Some middleFinger1, Some middleFinger2) \<Rightarrow>
                            Inr (st\<lparr>wingspan := Some
                              (wingspanCm_fixed
                                 (distancePixels middleFinger1 middleFinger2
                                    (canvas_width st) (canvas_height st))
                                 (canvas_width st))\<rparr>)
                        | _ \<Rightarrow> Inl (TypeError, st))
                     else Inr (st\<lparr>wingspan := None\<rparr>))
           else Inr st)"

section \<open>Well-formed landmarks and concrete frames\<close>

text \<open>
  A landmark the detector reports has finite coordinates (\<open>finite_position\<close>).
  Inputs for the worked examples: a playing video of a given size and timestamp, a
  landmark at a finite position, a detection result with the given subjects, the pose
  of the reference scenario (33 landmarks, shoulders at indices 11 and 12, wrists at
  15 and 16), a pose whose landmarks all coincide and a hand (21 landmarks) held at
  one position.
\<close>

definition finite_position :: "landmark \<Rightarrow> bool" where
  "finite_position lm = (isFinite (x lm) \<and> isFinite (y lm) \<and> isFinite (z lm))"

definition playing :: "nat \<Rightarrow> nat \<Rightarrow> real \<Rightarrow> video" where
  "playing w h t =
     \<lparr>paused = False, ended = False, videoWidth = w, videoHeight = h, currentTime = t\<rparr>"

definition point :: "real \<Rightarrow> real \<Rightarrow> landmark" where
  "point a b = \<lparr>x = Fin a, y = Fin b, z = Fin 0\<rparr>"

definition detected :: "landmark list list \<Rightarrow> landmarker_result" where
  "detected subjects = \<lparr>landmarks = Some subjects\<rparr>"

definition coincident_pose :: "landmark list" where
  "coincident_pose = replicate 33 (point (1 / 2) (1 / 2))"

definition scenario_pose :: "landmark list" where
  "scenario_pose = coincident_pose
     [11 := point (2 / 5) (1 / 2), 12 := point (3 / 5) (1 / 2),
      15 := point (1 / 10) (1 / 2), 16 := point (9 / 10) (1 / 2)]"

definition hand_at :: "real \<Rightarrow> real \<Rightarrow> landmark list" where
  "hand_at a b = replicate 21 (point a b)"

section \<open>Arithmetic of the pipelines\<close>

text \<open>
  Half the field of view is 35 degrees, \<open>7 * pi / 36\<close>. Its tangent is positive, so
  the focal length of a frame of width \<open>w\<close> is the finite number \<open>w / (2 * tan (7 * pi / 36))\<close>.
\<close>

lemma tan35_pos: "0 < tan (7 * pi / 36)"
  by (rule tan_gt_zero) simp_all

lemma half_fov_tan:
  "Math_tan ((fovDegrees / Fin 2) * (Math_PI / Fin 180)) = Fin (tan (7 * pi / 36))"
  by (simp add: fovDegrees_def Math_PI_def)

lemma focalLengthPixels_eq:
  "focalLengthPixels w = Fin (real w / (2 * tan (7 * pi / 36)))"
  unfolding focalLengthPixels_def half_fov_tan using tan35_pos by simp

lemma pixelToCmRatio_eq:
  "0 < w \<Longrightarrow> pixelToCmRatio w = Fin (300 * tan (7 * pi / 36) / real w)"
  by (simp add: pixelToCmRatio_def fovWidthCm_def CAMERA_DISTANCE_def half_fov_tan)

lemma wingspanCm_fixed_Fin:
  "0 < w \<Longrightarrow> wingspanCm_fixed (Fin p) w = Fin (p * (300 * tan (7 * pi / 36) / real w))"
  by (simp add: wingspanCm_fixed_def pixelToCmRatio_eq)

lemma calculatedDistance_Fin:
  assumes "0 < w" "p \<noteq> 0"
  shows "calculatedDistance (focalLengthPixels w) (Fin p) =
           Fin (45 * (real w / (2 * tan (7 * pi / 36))) / p)"
  using assms
  by (simp add: focalLengthPixels_eq calculatedDistance_def ASSUMED_SHOULDER_WIDTH_CM_def)

lemma wingspanCm_Fin:
  assumes "0 < w"
  shows "wingspanCm (Fin q) (Fin d) (focalLengthPixels w) =
           Fin (q * d / (real w / (2 * tan (7 * pi / 36))))"
  using assms tan35_pos by (simp add: focalLengthPixels_eq wingspanCm_def)

lemma distance_zero_reference:
  "0 < w \<Longrightarrow> calculatedDistance (focalLengthPixels w) (Fin 0) = PInf"
  using tan35_pos
  by (simp add: focalLengthPixels_eq calculatedDistance_def ASSUMED_SHOULDER_WIDTH_CM_def
      signed_inf_def)

lemma wingspan_infinite_distance:
  assumes "0 < w" "0 \<le> q"
  shows "wingspanCm (Fin q) PInf (focalLengthPixels w) = (if q = 0 then NaN else PInf)"
proof -
  have "0 < real w / (2 * tan (7 * pi / 36))"
    using assms tan35_pos by simp
  then have "\<not> real w / (2 * tan (7 * pi / 36)) < 0"
    by simp
  then show ?thesis
    using assms
    by (simp add: focalLengthPixels_eq wingspanCm_def signed_inf_def sgn_real_def)
qed

subsection \<open>Pixel separations\<close>

lemma isFinite_Fin: "isFinite n \<Longrightarrow> \<exists>a. n = Fin a"
  by (cases n) simp_all

lemma finite_position_Fin:
  assumes "finite_position lm"
  shows "\<exists>a b c. lm = \<lparr>x = Fin a, y = Fin b, z = Fin c\<rparr>"
proof -
  from assms obtain a b c where "x lm = Fin a" "y lm = Fin b" "z lm = Fin c"
    unfolding finite_position_def by (auto dest!: isFinite_Fin)
  then have "lm = \<lparr>x = Fin a, y = Fin b, z = Fin c\<rparr>"
    by simp
  then show ?thesis by blast
qed

lemma finite_position_point: "finite_position (point a b)"
  by (simp add: finite_position_def point_def)

lemma sum_squares_nonneg: "\<not> a * a + b * b < (0::real)" "\<not> a * a + b * b + c * c < (0::real)"
  by (simp_all add: not_less)

lemma Math_sqrt_Fin_nonneg: "Math_sqrt n = Fin q \<Longrightarrow> 0 \<le> q"
  by (cases n) (auto split: if_splits)

lemma wingspanPixels_nonneg: "wingspanPixels a b w h = Fin q \<Longrightarrow> 0 \<le> q"
  unfolding wingspanPixels_def Let_def by (rule Math_sqrt_Fin_nonneg)

lemma shoulderWidthPixels_Fin:
  "shoulderWidthPixels \<lparr>x = Fin a1, y = Fin a2, z = c\<rparr> \<lparr>x = Fin b1, y = Fin b2, z = d\<rparr> w h =
     Fin (sqrt (((b1 - a1) * real w)\<^sup>2 + ((b2 - a2) * real h)\<^sup>2))"
  by (simp add: shoulderWidthPixels_def Let_def minus_number_def sum_squares_nonneg
      power2_eq_square)

lemma wingspanPixels_Fin:
  "wingspanPixels \<lparr>x = Fin a1, y = Fin a2, z = c\<rparr> \<lparr>x = Fin b1, y = Fin b2, z = d\<rparr> w h =
     Fin (sqrt (((b1 - a1) * real w)\<^sup>2 + ((b2 - a2) * real h)\<^sup>2))"
  by (simp add: wingspanPixels_def Let_def minus_number_def sum_squares_nonneg
      power2_eq_square)

lemma distancePixels_Fin:
  "distancePixels \<lparr>x = Fin a1, y = Fin a2, z = c\<rparr> \<lparr>x = Fin b1, y = Fin b2, z = d\<rparr> w h =
     Fin (sqrt (((b1 - a1) * real w)\<^sup>2 + ((b2 - a2) * real h)\<^sup>2))"
  by (simp add: distancePixels_def Let_def minus_number_def sum_squares_nonneg
      power2_eq_square)

lemma distanceCm_Fin:
  assumes "0 < w"
  shows "distanceCm \<lparr>x = Fin a1, y = Fin a2, z = Fin a3\<rparr> \<lparr>x = Fin b1, y = Fin b2, z = Fin b3\<rparr> w h =
     Fin (50 * sqrt (((b1 - a1) * real w)\<^sup>2 + ((b2 - a2) * real h)\<^sup>2
                     + ((b3 - a3) * real w)\<^sup>2) / real w)"
  using assms
  by (simp add: distanceCm_def Let_def minus_number_def sum_squares_nonneg power2_eq_square)

lemma horizontal_shoulders:
  "shoulderWidthPixels (point a c) (point b c) w h = Fin (\<bar>b - a\<bar> * real w)"
  by (simp add: shoulderWidthPixels_def point_def Let_def minus_number_def abs_mult)

lemma horizontal_wrists:
  "wingspanPixels (point a c) (point b c) w h = Fin (\<bar>b - a\<bar> * real w)"
  by (simp add: wingspanPixels_def point_def Let_def minus_number_def abs_mult)

lemma horizontal_fingers:
  "distancePixels (point a c) (point b c) w h = Fin (\<bar>b - a\<bar> * real w)"
  by (simp add: distancePixels_def point_def Let_def minus_number_def abs_mult)

lemma sqrt_409600: "sqrt 409600 = 640"
  by (rule real_sqrt_unique) simp_all

subsection \<open>The tangent of 35 degrees\<close>

text \<open>
  Three times 35 degrees is 60 + 45 degrees, whose sine and cosine are known, so the
  tangent \<open>t\<close> of 35 degrees is a root of a cubic with coefficients in \<open>sqrt 3\<close>. The
  cubic is decreasing for \<open>t \<ge> 0\<close> around the root, which encloses \<open>t\<close> between any
  two rationals where the cubic changes sign.
\<close>

lemma sqrt3_lower: "1732050 / 1000000 < sqrt 3"
  by (rule real_less_rsqrt) (simp add: power2_eq_square)

lemma sqrt3_upper: "sqrt 3 < 1732051 / 1000000"
  by (rule real_less_lsqrt) (simp_all add: power2_eq_square)

lemma sqrt3_range: "1 < sqrt 3" "sqrt 3 < 2"
  using sqrt3_lower sqrt3_upper by simp_all

lemma tan35_cubic:
  fixes t :: real
  defines "t \<equiv> tan (7 * pi / 36)"
  shows "(sqrt 3 + 1) * (1 - 3 * t\<^sup>2) + (sqrt 3 - 1) * (3 * t - t ^ 3) = 0"
proof -
  define a :: real where "a = 7 * pi / 36"
  define s where "s = sin a"
  define c where "c = cos a"
  have a_pos: "0 < a" and a_lt: "a < pi / 2"
    by (simp_all add: a_def)
  have c_pos: "0 < c"
    unfolding c_def using a_pos a_lt by (rule cos_gt_zero)
  have sc: "s\<^sup>2 + c\<^sup>2 = 1"
    by (simp add: s_def c_def)
  have s2: "sin (a + a) = 2 * s * c" and c2: "cos (a + a) = c * c - s * s"
    using sin_add [of a a] cos_add [of a a] by (simp_all add: s_def c_def)
  have s3: "sin (a + (a + a)) = 3 * s * c\<^sup>2 - s ^ 3"
    unfolding sin_add [of a "a + a"] s2 c2
    by (simp add: s_def [symmetric] c_def [symmetric] algebra_simps power2_eq_square power3_eq_cube)
  have c3: "cos (a + (a + a)) = c ^ 3 - 3 * s\<^sup>2 * c"
    unfolding cos_add [of a "a + a"] s2 c2
    by (simp add: s_def [symmetric] c_def [symmetric] algebra_simps power2_eq_square power3_eq_cube)
  have split: "a + (a + a) = pi / 3 + pi / 4"
    by (simp add: a_def)
  have S3: "sin (a + (a + a)) = sqrt 2 * (sqrt 3 + 1) / 4"
    unfolding split sin_add sin_60 cos_60 sin_45 cos_45 by (simp add: algebra_simps)
  have C3: "cos (a + (a + a)) = sqrt 2 * (1 - sqrt 3) / 4"
    unfolding split cos_add sin_60 cos_60 sin_45 cos_45 by (simp add: algebra_simps)
  have r2: "sqrt 3 * sqrt 3 = 3" by simp
  have "(1 - sqrt 3) * sin (a + (a + a)) = (sqrt 3 + 1) * cos (a + (a + a))"
    unfolding S3 C3 by (simp add: algebra_simps)
  then have poly: "(1 - sqrt 3) * (3 * s * c\<^sup>2 - s ^ 3) = (sqrt 3 + 1) * (c ^ 3 - 3 * s\<^sup>2 * c)"
    unfolding s3 c3 .
  have t_eq: "s = t * c"
    using c_pos by (simp add: t_def tan_def s_def c_def a_def)
  have "c ^ 3 * ((sqrt 3 + 1) * (1 - 3 * t\<^sup>2) + (sqrt 3 - 1) * (3 * t - t ^ 3)) = 0"
    using poly unfolding t_eq by (simp add: algebra_simps power2_eq_square power3_eq_cube)
  then show ?thesis
    using c_pos by simp
qed

lemma cubic_factor:
  fixes r a t :: real
  shows "((r + 1) * (1 - 3 * a\<^sup>2) + (r - 1) * (3 * a - a ^ 3))
       - ((r + 1) * (1 - 3 * t\<^sup>2) + (r - 1) * (3 * t - t ^ 3))
       = (a - t) * (3 * (r - 1) - 3 * (r + 1) * a - 3 * ((r + 1) * t)
                    - (r - 1) * (a\<^sup>2 + a * t + t\<^sup>2))"
  by (simp add: algebra_simps power2_eq_square power3_eq_cube)

lemma cubic_slope:
  fixes r a t :: real
  assumes r: "1 < r" "r < 2" and a: "7 / 10 \<le> a" and t: "0 \<le> t"
  shows "3 * (r - 1) - 3 * (r + 1) * a - 3 * ((r + 1) * t)
         - (r - 1) * (a\<^sup>2 + a * t + t\<^sup>2) < 0"
proof -
  define u where "u = (r - 1) * (a\<^sup>2 + a * t + t\<^sup>2)"
  define v where "v = (r + 1) * t"
  define w where "w = (r + 1) * a"
  have "0 \<le> a * t" using a t by simp
  then have "0 \<le> a\<^sup>2 + a * t + t\<^sup>2" by simp
  then have u: "0 \<le> u" unfolding u_def using r by simp
  have v: "0 \<le> v" unfolding v_def using r t by simp
  have "(r + 1) * (7 / 10) \<le> w"
    unfolding w_def using r a by (intro mult_left_mono) simp_all
  then have w: "7 / 10 * r + 7 / 10 \<le> w" by (simp add: algebra_simps)
  have "3 * (r - 1) - 3 * w - 3 * v - u < 0"
    using u v w r by argo
  then show ?thesis
    unfolding u_def v_def w_def by (simp add: algebra_simps)
qed

lemma tan35_gt:
  fixes a :: real
  assumes a: "7 / 10 \<le> a"
    and pos: "0 < (sqrt 3 + 1) * (1 - 3 * a\<^sup>2) + (sqrt 3 - 1) * (3 * a - a ^ 3)"
  shows "a < tan (7 * pi / 36)"
proof (rule ccontr)
  define t where "t = tan (7 * pi / 36)"
  assume "\<not> a < tan (7 * pi / 36)"
  then have le: "0 \<le> a - t" by (simp add: t_def)
  have t0: "0 \<le> t" using tan35_pos by (simp add: t_def)
  have slope: "3 * (sqrt 3 - 1) - 3 * (sqrt 3 + 1) * a - 3 * ((sqrt 3 + 1) * t)
         - (sqrt 3 - 1) * (a\<^sup>2 + a * t + t\<^sup>2) \<le> 0"
    using cubic_slope [OF sqrt3_range a t0] by simp
  have "(a - t) * (3 * (sqrt 3 - 1) - 3 * (sqrt 3 + 1) * a - 3 * ((sqrt 3 + 1) * t)
         - (sqrt 3 - 1) * (a\<^sup>2 + a * t + t\<^sup>2)) \<le> 0"
    using le slope by (rule mult_nonneg_nonpos)
  then have "(sqrt 3 + 1) * (1 - 3 * a\<^sup>2) + (sqrt 3 - 1) * (3 * a - a ^ 3)
       - ((sqrt 3 + 1) * (1 - 3 * t\<^sup>2) + (sqrt 3 - 1) * (3 * t - t ^ 3)) \<le> 0"
    unfolding cubic_factor .
  then show False
    using pos tan35_cubic unfolding t_def by simp
qed

lemma tan35_lt:
  fixes a :: real
  assumes a: "7 / 10 \<le> a"
    and neg: "(sqrt 3 + 1) * (1 - 3 * a\<^sup>2) + (sqrt 3 - 1) * (3 * a - a ^ 3) < 0"
  shows "tan (7 * pi / 36) < a"
proof (rule ccontr)
  define t where "t = tan (7 * pi / 36)"
  assume "\<not> tan (7 * pi / 36) < a"
  then have le: "a - t \<le> 0" by (simp add: t_def)
  have t0: "0 \<le> t" using tan35_pos by (simp add: t_def)
  have slope: "3 * (sqrt 3 - 1) - 3 * (sqrt 3 + 1) * a - 3 * ((sqrt 3 + 1) * t)
         - (sqrt 3 - 1) * (a\<^sup>2 + a * t + t\<^sup>2) \<le> 0"
    using cubic_slope [OF sqrt3_range a t0] by simp
  have "0 \<le> (a - t) * (3 * (sqrt 3 - 1) - 3 * (sqrt 3 + 1) * a - 3 * ((sqrt 3 + 1) * t)
         - (sqrt 3 - 1) * (a\<^sup>2 + a * t + t\<^sup>2))"
    using le slope by (rule mult_nonpos_nonpos)
  then have "0 \<le> (sqrt 3 + 1) * (1 - 3 * a\<^sup>2) + (sqrt 3 - 1) * (3 * a - a ^ 3)
       - ((sqrt 3 + 1) * (1 - 3 * t\<^sup>2) + (sqrt 3 - 1) * (3 * t - t ^ 3))"
    unfolding cubic_factor .
  then show False
    using neg tan35_cubic unfolding t_def by simp
qed

lemma tan35_lower: "700204 / 1000000 < tan (7 * pi / 36)"
proof (rule tan35_gt)
  show "7 / 10 \<le> (700204 / 1000000 :: real)" by simp
  show "0 < (sqrt 3 + 1) * (1 - 3 * (700204 / 1000000)\<^sup>2)
          + (sqrt 3 - 1) * (3 * (700204 / 1000000) - (700204 / 1000000) ^ 3)"
    using sqrt3_lower unfolding power2_eq_square power3_eq_cube by argo
qed

lemma tan35_upper: "tan (7 * pi / 36) < 700211 / 1000000"
proof (rule tan35_lt)
  show "7 / 10 \<le> (700211 / 1000000 :: real)" by simp
  show "(sqrt 3 + 1) * (1 - 3 * (700211 / 1000000)\<^sup>2)
          + (sqrt 3 - 1) * (3 * (700211 / 1000000) - (700211 / 1000000) ^ 3) < 0"
    using sqrt3_upper unfolding power2_eq_square power3_eq_cube by argo
qed

lemma focal_1280: "focalLengthPixels 1280 = Fin (640 / tan (7 * pi / 36))"
  by (simp add: focalLengthPixels_eq)

lemma focal_1280_bounds:
  "91401 / 100 < 640 / tan (7 * pi / 36)" "640 / tan (7 * pi / 36) < 91402 / 100"
  using tan35_lower tan35_upper tan35_pos by (simp_all add: field_simps)

lemma distance_scenario_bounds:
  "16066 / 100 < 45 * (640 / tan (7 * pi / 36)) / 256"
  "45 * (640 / tan (7 * pi / 36)) / 256 < 16067 / 100"
  using focal_1280_bounds by simp_all

subsection \<open>Binary64 rounding\<close>

















section \<open>Array reads and the concrete frames\<close>

lemma index_full_pose:
  assumes "17 \<le> length lms"
  shows "index lms 11 = Some (lms ! 11)" "index lms 12 = Some (lms ! 12)"
    "index lms 15 = Some (lms ! 15)" "index lms 16 = Some (lms ! 16)"
  using assms by (simp_all add: index_def)

lemma scenario_pose_index:
  "index scenario_pose 11 = Some (point (2 / 5) (1 / 2))"
  "index scenario_pose 12 = Some (point (3 / 5) (1 / 2))"
  "index scenario_pose 15 = Some (point (1 / 10) (1 / 2))"
  "index scenario_pose 16 = Some (point (9 / 10) (1 / 2))"
  by (simp_all add: index_def scenario_pose_def coincident_pose_def)

lemma scenario_pose_length: "length scenario_pose = 33"
  by (simp add: scenario_pose_def coincident_pose_def)

lemma coincident_pose_index:
  "i < 33 \<Longrightarrow> index coincident_pose i = Some (point (1 / 2) (1 / 2))"
  by (simp add: index_def coincident_pose_def)

lemma hand_at_index: "index (hand_at a b) 12 = Some (point a b)"
  by (simp add: index_def hand_at_def)

lemma playing_sel:
  "paused (playing w h t) = False" "ended (playing w h t) = False"
  "videoWidth (playing w h t) = w" "videoHeight (playing w h t) = h"
  "currentTime (playing w h t) = t"
  by (simp_all add: playing_def)

lemma detected_sel: "landmarks (detected subjects) = Some subjects"
  by (simp add: detected_def)

lemma initial_sel:
  "wingspan initial = None" "distance initial = None" "lastVideoTime initial = - 1"
  "detectForVideo_calls initial = 0"
  by (simp_all add: initial_def)

lemma playing_fresh:
  "\<not> paused (playing w h 0)" "\<not> ended (playing w h 0)"
  "currentTime (playing w h 0) \<noteq> lastVideoTime initial"
  by (simp_all add: playing_def initial_def)

section \<open>The ticks, case by case\<close>

lemma measurePose_ok:
  assumes "index lms 11 = Some ls" "index lms 12 = Some rs"
    and "index lms 15 = Some lw" "index lms 16 = Some rw"
  shows "measurePose lms st =
    Inr (st\<lparr>distance := Some (calculatedDistance (focalLengthPixels (canvas_width st))
                (shoulderWidthPixels ls rs (canvas_width st) (canvas_height st))),
            wingspan := Some (wingspanCm
                (wingspanPixels lw rw (canvas_width st) (canvas_height st))
                (calculatedDistance (focalLengthPixels (canvas_width st))
                   (shoulderWidthPixels ls rs (canvas_width st) (canvas_height st)))
                (focalLengthPixels (canvas_width st)))\<rparr>)"
  using assms by (simp add: measurePose_def Let_def)

lemma measurePose_Inr:
  assumes "measurePose lms s = Inr s'"
  shows "\<exists>d w. s' = s\<lparr>distance := Some d, wingspan := Some w\<rparr>"
  using assms
  by (auto simp: measurePose_def Let_def split: option.splits prod.splits)

lemma detectPose_fresh:
  assumes "\<not> paused v" "\<not> ended v" "currentTime v \<noteq> lastVideoTime st"
  shows "detectPose v r st =
    (case landmarks r of
       Some (lms # rest) \<Rightarrow>
         measurePose lms (st\<lparr>canvas_width := videoWidth v, canvas_height := videoHeight v,
           lastVideoTime := currentTime v,
           detectForVideo_calls := Suc (detectForVideo_calls st)\<rparr>)
     | _ \<Rightarrow> Inr (st\<lparr>canvas_width := videoWidth v, canvas_height := videoHeight v,
           lastVideoTime := currentTime v,
           detectForVideo_calls := Suc (detectForVideo_calls st),
           wingspan := None, distance := None\<rparr>))"
  using assms by (simp add: detectPose_def Let_def split: option.splits list.splits)

lemma detectPose_measured:
  assumes "\<not> paused v" "\<not> ended v" "currentTime v \<noteq> lastVideoTime st"
    and "landmarks r = Some (lms # rest)"
    and "index lms 11 = Some ls" "index lms 12 = Some rs"
    and "index lms 15 = Some lw" "index lms 16 = Some rw"
  shows "detectPose v r st =
    Inr (st\<lparr>canvas_width := videoWidth v, canvas_height := videoHeight v,
            lastVideoTime := currentTime v,
            detectForVideo_calls := Suc (detectForVideo_calls st),
            distance := Some (calculatedDistance (focalLengthPixels (videoWidth v))
                (shoulderWidthPixels ls rs (videoWidth v) (videoHeight v))),
            wingspan := Some (wingspanCm
                (wingspanPixels lw rw (videoWidth v) (videoHeight v))
                (calculatedDistance (focalLengthPixels (videoWidth v))
                   (shoulderWidthPixels ls rs (videoWidth v) (videoHeight v)))
                (focalLengthPixels (videoWidth v)))\<rparr>)"
  using assms by (simp add: detectPose_fresh measurePose_ok)

lemma detectPose_no_subject:
  assumes "\<not> paused v" "\<not> ended v" "currentTime v \<noteq> lastVideoTime st"
    and "detected_subjects r = []"
  shows "detectPose v r st =
     Inr (st\<lparr>canvas_width := videoWidth v, canvas_height := videoHeight v,
           lastVideoTime := currentTime v,
           detectForVideo_calls := Suc (detectForVideo_calls st),
           wingspan := None, distance := None\<rparr>)"
  using assms(4) unfolding detectPose_fresh [OF assms(1-3)]
  by (auto simp: detected_subjects_def split: option.splits list.splits)

lemma detectPose_one_subject:
  assumes "\<not> paused v" "\<not> ended v" "currentTime v \<noteq> lastVideoTime st"
    and "detected_subjects r = lms # rest"
  shows "landmarks r = Some (lms # rest)"
  using assms(4) by (auto simp: detected_subjects_def split: option.splits)

lemma detectHands_fresh:
  assumes "\<not> paused v" "\<not> ended v" "currentTime v \<noteq> lastVideoTime st"
    and "landmarks r = Some hands"
  shows "detectHands v r st =
    (if length hands = 2 then
       (case (index (hands ! 0) 12, index (hands ! 1) 12) of
          (Some finger1, Some finger2) \<Rightarrow>
            Inr (st\<lparr>canvas_width := videoWidth v, canvas_height := videoHeight v,
              lastVideoTime := currentTime v,
              detectForVideo_calls := Suc (detectForVideo_calls st),
              distance := Some (distanceCm finger1 finger2 (videoWidth v) (videoHeight v))\<rparr>)
        | _ \<Rightarrow> Inl (TypeError, st\<lparr>canvas_width := videoWidth v,
              canvas_height := videoHeight v, lastVideoTime := currentTime v,
              detectForVideo_calls := Suc (detectForVideo_calls st)\<rparr>))
     else Inr (st\<lparr>canvas_width := videoWidth v, canvas_height := videoHeight v,
              lastVideoTime := currentTime v,
              detectForVideo_calls := Suc (detectForVideo_calls st), distance := None\<rparr>))"
  using assms
  by (simp add: detectHands_def Let_def split: option.splits prod.splits)

lemma detectHands_wingspan_fresh:
  assumes "\<not> paused v" "\<not> ended v" "currentTime v \<noteq> lastVideoTime st"
    and "landmarks r = Some hands"
  shows "detectHands_wingspan v r st =
    (if length hands = 2 then
       (case (index (hands ! 0) 12, index (hands ! 1) 12) of
          (Some middleFinger1, Some middleFinger2) \<Rightarrow>
            Inr (st\<lparr>canvas_width := videoWidth v, canvas_height := videoHeight v,
              lastVideoTime := currentTime v,
              detectForVideo_calls := Suc (detectForVideo_calls st),
              wingspan := Some (wingspanCm_fixed
                (distancePixels middleFinger1 middleFinger2 (videoWidth v) (videoHeight v))
                (videoWidth v))\<rparr>)
        | _ \<Rightarrow> Inl (TypeError, st\<lparr>canvas_width := videoWidth v,
              canvas_height := videoHeight v, lastVideoTime := currentTime v,
              detectForVideo_calls := Suc (detectForVideo_calls st)\<rparr>))
     else Inr (st\<lparr>canvas_width := videoWidth v, canvas_height := videoHeight v,
              lastVideoTime := currentTime v,
              detectForVideo_calls := Suc (detectForVideo_calls st), wingspan := None\<rparr>))"
  using assms
  by (simp add: detectHands_wingspan_def Let_def split: option.splits prod.splits)

lemma detectHands_wingspan_two:
  assumes "\<not> paused v" "\<not> ended v" "currentTime v \<noteq> lastVideoTime st"
    and "landmarks r = Some [hand1, hand2]"
    and "index hand1 12 = Some a" "index hand2 12 = Some b"
  shows "detectHands_wingspan v r st =
           Inr (st\<lparr>canvas_width := videoWidth v, canvas_height := videoHeight v,
              lastVideoTime := currentTime v,
              detectForVideo_calls := Suc (detectForVideo_calls st),
              wingspan := Some (wingspanCm_fixed
                (distancePixels a b (videoWidth v) (videoHeight v)) (videoWidth v))\<rparr>)"
  unfolding detectHands_wingspan_fresh [OF assms(1-4)] using assms(5,6) by simp

lemma detectPose_idle: "paused v \<or> ended v \<Longrightarrow> detectPose v r st = Inr st"
  by (auto simp: detectPose_def)

lemma detectHands_idle: "paused v \<or> ended v \<Longrightarrow> detectHands v r st = Inr st"
  by (auto simp: detectHands_def)

lemma detectHands_wingspan_idle:
  "paused v \<or> ended v \<Longrightarrow> detectHands_wingspan v r st = Inr st"
  by (auto simp: detectHands_wingspan_def)

lemma detectPose_gate:
  assumes "\<not> paused v" "\<not> ended v" "detectPose v r st = Inr s1"
  shows "lastVideoTime s1 = currentTime v"
    and "detectForVideo_calls s1 \<le> Suc (detectForVideo_calls st)"
  using assms
  by (auto simp: detectPose_def Let_def dest!: measurePose_Inr
      split: if_splits option.splits list.splits)

lemma detectHands_gate:
  assumes "\<not> paused v" "\<not> ended v" "detectHands v r st = Inr s1"
  shows "lastVideoTime s1 = currentTime v"
    and "detectForVideo_calls s1 \<le> Suc (detectForVideo_calls st)"
  using assms
  by (auto simp: detectHands_def Let_def split: if_splits option.splits prod.splits)

lemma detectHands_wingspan_gate:
  assumes "\<not> paused v" "\<not> ended v" "detectHands_wingspan v r st = Inr s1"
  shows "lastVideoTime s1 = currentTime v"
    and "detectForVideo_calls s1 \<le> Suc (detectForVideo_calls st)"
  using assms
  by (auto simp: detectHands_wingspan_def Let_def split: if_splits option.splits prod.splits)

lemma second_tick_skips:
  assumes same: "lastVideoTime s1 = currentTime v2"
  shows "\<exists>s2. detectPose v2 r2 s1 = Inr s2 \<and>
           detectForVideo_calls s2 = detectForVideo_calls s1 \<and>
           wingspan s2 = wingspan s1 \<and> distance s2 = distance s1 \<and>
           lastVideoTime s2 = lastVideoTime s1"
    and "\<exists>s2. detectHands v2 r2 s1 = Inr s2 \<and>
           detectForVideo_calls s2 = detectForVideo_calls s1 \<and>
           wingspan s2 = wingspan s1 \<and> distance s2 = distance s1 \<and>
           lastVideoTime s2 = lastVideoTime s1"
    and "\<exists>s2. detectHands_wingspan v2 r2 s1 = Inr s2 \<and>
           detectForVideo_calls s2 = detectForVideo_calls s1 \<and>
           wingspan s2 = wingspan s1 \<and> distance s2 = distance s1 \<and>
           lastVideoTime s2 = lastVideoTime s1"
  using same
  by (auto simp: detectPose_def detectHands_def detectHands_wingspan_def Let_def)

subsection \<open>Worked frames\<close>

lemma scenario_measure:
  "measurePose scenario_pose st =
     Inr (st\<lparr>distance := Some (calculatedDistance (focalLengthPixels (canvas_width st))
                (Fin (real (canvas_width st) / 5))),
            wingspan := Some (wingspanCm (Fin (4 * real (canvas_width st) / 5))
                (calculatedDistance (focalLengthPixels (canvas_width st))
                   (Fin (real (canvas_width st) / 5)))
                (focalLengthPixels (canvas_width st)))\<rparr>)"
  by (simp add: measurePose_ok [OF scenario_pose_index] horizontal_shoulders horizontal_wrists)

lemma scenario_tick:
  "detectPose (playing 1280 720 0) (detected [scenario_pose]) initial =
     Inr \<lparr>wingspan = Some (Fin 180),
          distance = Some (Fin (45 * (640 / tan (7 * pi / 36)) / 256)),
          lastVideoTime = 0, canvas_width = 1280, canvas_height = 720,
          detectForVideo_calls = 1\<rparr>"
proof -
  have T: "0 < tan (7 * pi / 36)" by (rule tan35_pos)
  have fresh: "\<not> paused (playing 1280 720 0)" "\<not> ended (playing 1280 720 0)"
    "currentTime (playing 1280 720 0) \<noteq> lastVideoTime initial"
    by (simp_all add: playing_def initial_def)
  show ?thesis
    unfolding detectPose_fresh [OF fresh]
    using T
    by (simp add: detected_def scenario_measure focalLengthPixels_eq calculatedDistance_def
        wingspanCm_def ASSUMED_SHOULDER_WIDTH_CM_def playing_def initial_def)
qed

lemma coincident_tick:
  "detectPose (playing 1280 720 0) (detected [coincident_pose]) initial =
     Inr \<lparr>wingspan = Some NaN, distance = Some PInf, lastVideoTime = 0,
          canvas_width = 1280, canvas_height = 720, detectForVideo_calls = 1\<rparr>"
proof -
  have fresh: "\<not> paused (playing 1280 720 0)" "\<not> ended (playing 1280 720 0)"
    "currentTime (playing 1280 720 0) \<noteq> lastVideoTime initial"
    by (simp_all add: playing_def initial_def)
  have lms: "landmarks (detected [coincident_pose]) = Some (coincident_pose # [])"
    by (simp add: detected_def)
  have at: "index coincident_pose 11 = Some (point (1 / 2) (1 / 2))"
    "index coincident_pose 12 = Some (point (1 / 2) (1 / 2))"
    "index coincident_pose 15 = Some (point (1 / 2) (1 / 2))"
    "index coincident_pose 16 = Some (point (1 / 2) (1 / 2))"
    by (simp_all add: coincident_pose_index)
  have w: "0 < (1280::nat)" by simp
  have q: "(0::real) \<le> 0" by simp
  show ?thesis
    unfolding detectPose_measured [OF fresh lms at]
    by (simp add: playing_def initial_def horizontal_shoulders horizontal_wrists
        distance_zero_reference [OF w] wingspan_infinite_distance [OF w q])
qed

lemma wrists_apart_tick:
  "detectPose (playing 1280 720 0)
     (detected [coincident_pose [15 := point (1 / 10) (1 / 2), 16 := point (9 / 10) (1 / 2)]])
     initial =
     Inr \<lparr>wingspan = Some PInf, distance = Some PInf, lastVideoTime = 0,
          canvas_width = 1280, canvas_height = 720, detectForVideo_calls = 1\<rparr>"
proof -
  let ?pose = "coincident_pose [15 := point (1 / 10) (1 / 2), 16 := point (9 / 10) (1 / 2)]"
  have lms: "landmarks (detected [?pose]) = Some (?pose # [])"
    by (simp add: detected_def)
  have at: "index ?pose 11 = Some (point (1 / 2) (1 / 2))"
    "index ?pose 12 = Some (point (1 / 2) (1 / 2))"
    "index ?pose 15 = Some (point (1 / 10) (1 / 2))"
    "index ?pose 16 = Some (point (9 / 10) (1 / 2))"
    by (simp_all add: index_def coincident_pose_def)
  have w: "0 < (1280::nat)" by simp
  have q: "(0::real) \<le> 1024" by simp
  show ?thesis
    unfolding detectPose_measured [OF playing_fresh lms at]
    using wingspan_infinite_distance [OF w q]
    by (simp add: playing_def initial_def horizontal_shoulders horizontal_wrists
        distance_zero_reference [OF w])
qed

lemma no_hands_tick:
  "detectHands (playing 1280 720 0) (detected []) initial =
     Inr \<lparr>wingspan = None, distance = None, lastVideoTime = 0,
          canvas_width = 1280, canvas_height = 720, detectForVideo_calls = 1\<rparr>"
  "detectHands_wingspan (playing 1280 720 0) (detected []) initial =
     Inr \<lparr>wingspan = None, distance = None, lastVideoTime = 0,
          canvas_width = 1280, canvas_height = 720, detectForVideo_calls = 1\<rparr>"
  by (simp_all add: detectHands_def detectHands_wingspan_def playing_def detected_def
      initial_def Let_def)

section \<open>Known-reference mode: similar triangles\<close>




section \<open>Known-reference mode: coinciding reference landmarks\<close>

text \<open>
  Claim C2, as stated, fails. The pose page divides by the shoulder separation without
  testing it: for a pose whose landmarks all coincide, on a playing 1280 x 720 video,
  the tick stores the distance \<open>Infinity\<close> and the wingspan \<open>NaN\<close>, not \<open>null\<close>.
\<close>

theorem coincident_shoulders_counterexample:
  "detectPose (playing 1280 720 0) (detected [coincident_pose]) initial =
     Inr \<lparr>wingspan = Some NaN, distance = Some PInf, lastVideoTime = 0,
          canvas_width = 1280, canvas_height = 720, detectForVideo_calls = 1\<rparr>"
  by (rule coincident_tick)

text \<open>
  Claim C2, amended. On a processed frame of positive width whose reference pixel
  separation is zero, the distance is \<open>Infinity\<close> and the wingspan is \<open>Infinity\<close>, or
  \<open>NaN\<close> when the wrist separation is zero as well; neither is unavailable.
\<close>

theorem zero_reference_separation:
  assumes "\<not> paused v" and "\<not> ended v" and "currentTime v \<noteq> lastVideoTime st"
    and "landmarks r = Some (lms # rest)"
    and "index lms 11 = Some ls" and "index lms 12 = Some rs"
    and "index lms 15 = Some lw" and "index lms 16 = Some rw"
    and "0 < videoWidth v"
    and "shoulderWidthPixels ls rs (videoWidth v) (videoHeight v) = Fin 0"
    and "wingspanPixels lw rw (videoWidth v) (videoHeight v) = Fin q"
  shows "\<exists>st'. detectPose v r st = Inr st' \<and> distance st' = Some PInf \<and>
           wingspan st' = Some (if q = 0 then NaN else PInf)"
proof -
  have q: "0 \<le> q" using assms(11) by (rule wingspanPixels_nonneg)
  show ?thesis
    unfolding detectPose_measured [OF assms(1-8)] assms(10,11)
      distance_zero_reference [OF assms(9)] wingspan_infinite_distance [OF assms(9) q]
    by simp
qed

theorem zero_reference_separation_witness:
  "\<not> paused (playing 1280 720 0) \<and> \<not> ended (playing 1280 720 0) \<and>
   currentTime (playing 1280 720 0) \<noteq> lastVideoTime initial \<and>
   landmarks (detected [coincident_pose]) = Some [coincident_pose] \<and>
   index coincident_pose 11 = Some (point (1 / 2) (1 / 2)) \<and>
   index coincident_pose 12 = Some (point (1 / 2) (1 / 2)) \<and>
   index coincident_pose 15 = Some (point (1 / 2) (1 / 2)) \<and>
   index coincident_pose 16 = Some (point (1 / 2) (1 / 2)) \<and>
   0 < videoWidth (playing 1280 720 0) \<and>
   shoulderWidthPixels (point (1 / 2) (1 / 2)) (point (1 / 2) (1 / 2))
     (videoWidth (playing 1280 720 0)) (videoHeight (playing 1280 720 0)) = Fin 0 \<and>
   wingspanPixels (point (1 / 2) (1 / 2)) (point (1 / 2) (1 / 2))
     (videoWidth (playing 1280 720 0)) (videoHeight (playing 1280 720 0)) = Fin 0 \<and>
   (\<exists>st'. detectPose (playing 1280 720 0) (detected [coincident_pose]) initial = Inr st' \<and>
      distance st' = Some PInf \<and> wingspan st' = Some NaN)"
  using zero_reference_separation [of "playing 1280 720 0" initial "detected [coincident_pose]"
      coincident_pose "[]" "point (1 / 2) (1 / 2)" "point (1 / 2) (1 / 2)"
      "point (1 / 2) (1 / 2)" "point (1 / 2) (1 / 2)" 0]
  by (simp add: playing_def initial_def detected_def coincident_pose_index
      horizontal_shoulders horizontal_wrists)

section \<open>Frame gate: a repeated timestamp\<close>

text \<open>
  Claim C3. A tick observes the timestamp when it reads \<open>video.currentTime\<close>, that is
  when the video is neither paused nor ended. After such a tick has returned, a tick
  that finds the same timestamp calls no detection and leaves the wingspan, the
  distance and the remembered timestamp as they were, so the two ticks together made
  at most one detection call. This holds for the pose page and for both hand pages.
\<close>

theorem duplicate_timestamp_skipped:
  assumes "\<not> paused v1" and "\<not> ended v1" and "currentTime v2 = currentTime v1"
  shows "(detectPose v1 r1 st = Inr s1 \<longrightarrow>
            (\<exists>s2. detectPose v2 r2 s1 = Inr s2 \<and>
               detectForVideo_calls s2 = detectForVideo_calls s1 \<and>
               detectForVideo_calls s2 \<le> Suc (detectForVideo_calls st) \<and>
               wingspan s2 = wingspan s1 \<and> distance s2 = distance s1 \<and>
               lastVideoTime s2 = lastVideoTime s1)) \<and>
         (detectHands v1 r1 st = Inr s1 \<longrightarrow>
            (\<exists>s2. detectHands v2 r2 s1 = Inr s2 \<and>
               detectForVideo_calls s2 = detectForVideo_calls s1 \<and>
               detectForVideo_calls s2 \<le> Suc (detectForVideo_calls st) \<and>
               wingspan s2 = wingspan s1 \<and> distance s2 = distance s1 \<and>
               lastVideoTime s2 = lastVideoTime s1)) \<and>
         (detectHands_wingspan v1 r1 st = Inr s1 \<longrightarrow>
            (\<exists>s2. detectHands_wingspan v2 r2 s1 = Inr s2 \<and>
               detectForVideo_calls s2 = detectForVideo_calls s1 \<and>
               detectForVideo_calls s2 \<le> Suc (detectForVideo_calls st) \<and>
               wingspan s2 = wingspan s1 \<and> distance s2 = distance s1 \<and>
               lastVideoTime s2 = lastVideoTime s1))"
proof (intro conjI impI)
  assume tick: "detectPose v1 r1 st = Inr s1"
  then have same: "lastVideoTime s1 = currentTime v2"
    using assms detectPose_gate(1) by simp
  have once: "detectForVideo_calls s1 \<le> Suc (detectForVideo_calls st)"
    using assms(1,2) tick by (rule detectPose_gate(2))
  from second_tick_skips(1) [OF same, where ?r2.0 = r2] once
  show "\<exists>s2. detectPose v2 r2 s1 = Inr s2 \<and>
               detectForVideo_calls s2 = detectForVideo_calls s1 \<and>
               detectForVideo_calls s2 \<le> Suc (detectForVideo_calls st) \<and>
               wingspan s2 = wingspan s1 \<and> distance s2 = distance s1 \<and>
               lastVideoTime s2 = lastVideoTime s1"
    by auto
next
  assume tick: "detectHands v1 r1 st = Inr s1"
  then have same: "lastVideoTime s1 = currentTime v2"
    using assms detectHands_gate(1) by simp
  have once: "detectForVideo_calls s1 \<le> Suc (detectForVideo_calls st)"
    using assms(1,2) tick by (rule detectHands_gate(2))
  from second_tick_skips(2) [OF same, where ?r2.0 = r2] once
  show "\<exists>s2. detectHands v2 r2 s1 = Inr s2 \<and>
               detectForVideo_calls s2 = detectForVideo_calls s1 \<and>
               detectForVideo_calls s2 \<le> Suc (detectForVideo_calls st) \<and>
               wingspan s2 = wingspan s1 \<and> distance s2 = distance s1 \<and>
               lastVideoTime s2 = lastVideoTime s1"
    by auto
next
  assume tick: "detectHands_wingspan v1 r1 st = Inr s1"
  then have same: "lastVideoTime s1 = currentTime v2"
    using assms detectHands_wingspan_gate(1) by simp
  have once: "detectForVideo_calls s1 \<le> Suc (detectForVideo_calls st)"
    using assms(1,2) tick by (rule detectHands_wingspan_gate(2))
  from second_tick_skips(3) [OF same, where ?r2.0 = r2] once
  show "\<exists>s2. detectHands_wingspan v2 r2 s1 = Inr s2 \<and>
               detectForVideo_calls s2 = detectForVideo_calls s1 \<and>
               detectForVideo_calls s2 \<le> Suc (detectForVideo_calls st) \<and>
               wingspan s2 = wingspan s1 \<and> distance s2 = distance s1 \<and>
               lastVideoTime s2 = lastVideoTime s1"
    by auto
qed

theorem duplicate_timestamp_skipped_witness:
  "\<not> paused (playing 1280 720 0) \<and> \<not> ended (playing 1280 720 0) \<and>
   currentTime (playing 640 480 0) = currentTime (playing 1280 720 0) \<and>
   detectPose (playing 1280 720 0) (detected [scenario_pose]) initial =
     Inr \<lparr>wingspan = Some (Fin 180),
          distance = Some (Fin (45 * (640 / tan (7 * pi / 36)) / 256)),
          lastVideoTime = 0, canvas_width = 1280, canvas_height = 720,
          detectForVideo_calls = 1\<rparr> \<and>
   (\<exists>s2. detectPose (playing 640 480 0) (detected [coincident_pose])
            \<lparr>wingspan = Some (Fin 180),
             distance = Some (Fin (45 * (640 / tan (7 * pi / 36)) / 256)),
             lastVideoTime = 0, canvas_width = 1280, canvas_height = 720,
             detectForVideo_calls = 1\<rparr> = Inr s2 \<and>
          detectForVideo_calls s2 = 1 \<and> wingspan s2 = Some (Fin 180) \<and>
          distance s2 = Some (Fin (45 * (640 / tan (7 * pi / 36)) / 256))) \<and>
   detectHands (playing 1280 720 0) (detected []) initial =
     Inr \<lparr>wingspan = None, distance = None, lastVideoTime = 0,
          canvas_width = 1280, canvas_height = 720, detectForVideo_calls = 1\<rparr> \<and>
   (\<exists>s2. detectHands (playing 640 480 0)
            (detected [hand_at (1 / 4) (1 / 2), hand_at (3 / 4) (1 / 2)])
            \<lparr>wingspan = None, distance = None, lastVideoTime = 0,
             canvas_width = 1280, canvas_height = 720, detectForVideo_calls = 1\<rparr> = Inr s2 \<and>
          detectForVideo_calls s2 = 1 \<and> distance s2 = None) \<and>
   detectHands_wingspan (playing 1280 720 0) (detected []) initial =
     Inr \<lparr>wingspan = None, distance = None, lastVideoTime = 0,
          canvas_width = 1280, canvas_height = 720, detectForVideo_calls = 1\<rparr> \<and>
   (\<exists>s2. detectHands_wingspan (playing 640 480 0)
            (detected [hand_at (1 / 4) (1 / 2), hand_at (3 / 4) (1 / 2)])
            \<lparr>wingspan = None, distance = None, lastVideoTime = 0,
             canvas_width = 1280, canvas_height = 720, detectForVideo_calls = 1\<rparr> = Inr s2 \<and>
          detectForVideo_calls s2 = 1 \<and> wingspan s2 = None)"
proof -
  define posed :: home where
    "posed = \<lparr>wingspan = Some (Fin 180),
       distance = Some (Fin (45 * (640 / tan (7 * pi / 36)) / 256)),
       lastVideoTime = 0, canvas_width = 1280, canvas_height = 720,
       detectForVideo_calls = 1\<rparr>"
  define empty :: home where
    "empty = \<lparr>wingspan = None, distance = None, lastVideoTime = 0,
       canvas_width = 1280, canvas_height = 720, detectForVideo_calls = 1\<rparr>"
  have gate: "\<not> paused (playing 1280 720 0)" "\<not> ended (playing 1280 720 0)"
    "currentTime (playing 640 480 0) = currentTime (playing 1280 720 0)"
    by (simp_all add: playing_def)
  have first: "detectPose (playing 1280 720 0) (detected [scenario_pose]) initial = Inr posed"
    "detectHands (playing 1280 720 0) (detected []) initial = Inr empty"
    "detectHands_wingspan (playing 1280 720 0) (detected []) initial = Inr empty"
    unfolding posed_def empty_def by (rule scenario_tick no_hands_tick)+
  note pose_skip = duplicate_timestamp_skipped [OF gate,
      where ?r1.0 = "detected [scenario_pose]" and st = initial and ?s1.0 = posed
        and ?r2.0 = "detected [coincident_pose]", THEN conjunct1, THEN mp, OF first(1)]
  note hands_skip = duplicate_timestamp_skipped [OF gate,
      where ?r1.0 = "detected []" and st = initial and ?s1.0 = empty
        and ?r2.0 = "detected [hand_at (1 / 4) (1 / 2), hand_at (3 / 4) (1 / 2)]",
      THEN conjunct2, THEN conjunct1, THEN mp, OF first(2)]
  note fixed_skip = duplicate_timestamp_skipped [OF gate,
      where ?r1.0 = "detected []" and st = initial and ?s1.0 = empty
        and ?r2.0 = "detected [hand_at (1 / 4) (1 / 2), hand_at (3 / 4) (1 / 2)]",
      THEN conjunct2, THEN conjunct2, THEN mp, OF first(3)]
  show ?thesis
    using gate first pose_skip hands_skip fixed_skip
    unfolding posed_def empty_def by auto
qed

section \<open>Known-reference mode: number of subjects\<close>

text \<open>
  Claim C4. The pose page creates its landmarker without \<open>numPoses\<close>, so a result holds
  at most one pose. On a processed frame with such a result, a subject count other than
  one leaves the wingspan and the distance unavailable; a tick that ends with a wingspan
  or a distance, returning or throwing, had exactly one subject; and one subject with
  the landmarks up to index 16 gets a distance and a wingspan.
\<close>

theorem exactly_one_subject:
  assumes "\<not> paused v" and "\<not> ended v" and "currentTime v \<noteq> lastVideoTime st"
    and "length (detected_subjects r) \<le> 1"
  shows "(length (detected_subjects r) \<noteq> 1 \<longrightarrow>
            (\<exists>st'. detectPose v r st = Inr st' \<and> wingspan st' = None \<and> distance st' = None)) \<and>
         ((detectPose v r st = Inr st' \<or> detectPose v r st = Inl (e, st')) \<and>
          (wingspan st' \<noteq> None \<or> distance st' \<noteq> None) \<longrightarrow>
            length (detected_subjects r) = 1) \<and>
         (detected_subjects r = [lms] \<and> 17 \<le> length lms \<longrightarrow>
            (\<exists>st' d w. detectPose v r st = Inr st' \<and>
               distance st' = Some d \<and> wingspan st' = Some w))"
proof (intro conjI impI)
  assume "length (detected_subjects r) \<noteq> 1"
  with assms(4) have "detected_subjects r = []" by (cases "detected_subjects r") simp_all
  then show "\<exists>st'. detectPose v r st = Inr st' \<and> wingspan st' = None \<and> distance st' = None"
    by (simp add: detectPose_no_subject [OF assms(1-3)])
next
  assume h: "(detectPose v r st = Inr st' \<or> detectPose v r st = Inl (e, st')) \<and>
          (wingspan st' \<noteq> None \<or> distance st' \<noteq> None)"
  show "length (detected_subjects r) = 1"
  proof (rule ccontr)
    assume "length (detected_subjects r) \<noteq> 1"
    with assms(4) have "detected_subjects r = []" by (cases "detected_subjects r") simp_all
    from detectPose_no_subject [OF assms(1-3) this] h show False by auto
  qed
next
  assume h: "detected_subjects r = [lms] \<and> 17 \<le> length lms"
  then have first: "landmarks r = Some (lms # [])" and full: "17 \<le> length lms"
    using detectPose_one_subject [OF assms(1-3), of r lms "[]"] by simp_all
  show "\<exists>st' d w. detectPose v r st = Inr st' \<and> distance st' = Some d \<and> wingspan st' = Some w"
    unfolding detectPose_measured [OF assms(1-3) first index_full_pose [OF full]] by simp
qed

theorem exactly_one_subject_witness:
  "\<not> paused (playing 1280 720 0) \<and> \<not> ended (playing 1280 720 0) \<and>
   currentTime (playing 1280 720 0) \<noteq> lastVideoTime initial \<and>
   length (detected_subjects (detected [])) \<le> 1 \<and>
   length (detected_subjects (detected [])) \<noteq> 1 \<and>
   (\<exists>st'. detectPose (playing 1280 720 0) (detected []) initial = Inr st' \<and>
      wingspan st' = None \<and> distance st' = None) \<and>
   length (detected_subjects (detected [scenario_pose])) \<le> 1 \<and>
   detected_subjects (detected [scenario_pose]) = [scenario_pose] \<and>
   17 \<le> length scenario_pose \<and>
   (\<exists>st' d w. detectPose (playing 1280 720 0) (detected [scenario_pose]) initial = Inr st' \<and>
      distance st' = Some d \<and> wingspan st' = Some w) \<and>
   detectPose (playing 1280 720 0) (detected [scenario_pose]) initial =
     Inr \<lparr>wingspan = Some (Fin 180),
          distance = Some (Fin (45 * (640 / tan (7 * pi / 36)) / 256)),
          lastVideoTime = 0, canvas_width = 1280, canvas_height = 720,
          detectForVideo_calls = 1\<rparr> \<and>
   length (detected_subjects (detected [scenario_pose])) = 1"
proof -
  have sub: "detected_subjects (detected []) = []"
    "detected_subjects (detected [scenario_pose]) = [scenario_pose]"
    by (simp_all add: detected_subjects_def detected_def)
  have c0: "length (detected_subjects (detected [])) \<le> 1"
    and c1: "length (detected_subjects (detected [scenario_pose])) \<le> 1"
    by (simp_all add: sub)
  note none = exactly_one_subject [OF playing_fresh [of 1280 720] c0, THEN conjunct1]
  note one = exactly_one_subject [OF playing_fresh [of 1280 720] c1,
      where lms = scenario_pose, THEN conjunct2, THEN conjunct2]
  note only = exactly_one_subject [OF playing_fresh [of 1280 720] c1,
      where st' = "\<lparr>wingspan = Some (Fin 180),
          distance = Some (Fin (45 * (640 / tan (7 * pi / 36)) / 256)),
          lastVideoTime = 0, canvas_width = 1280, canvas_height = 720,
          detectForVideo_calls = 1\<rparr>", THEN conjunct2, THEN conjunct1]
  have a: "\<exists>st'. detectPose (playing 1280 720 0) (detected []) initial = Inr st' \<and>
      wingspan st' = None \<and> distance st' = None"
    using none by (simp add: sub)
  have b: "\<exists>st' d w. detectPose (playing 1280 720 0) (detected [scenario_pose]) initial =
      Inr st' \<and> distance st' = Some d \<and> wingspan st' = Some w"
    using one by (simp add: sub scenario_pose_length)
  have c: "length (detected_subjects (detected [scenario_pose])) = 1"
    using only scenario_tick by simp
  show ?thesis
    using a b c scenario_tick
    by (simp add: playing_fresh sub scenario_pose_length)
qed

section \<open>Fixed-distance mode: number of subjects\<close>

text \<open>
  Claim C5. On a processed frame of the fixed-distance page, 0, 1 or 3 detected hands
  give an unavailable wingspan. Exactly two hands on a frame of positive width, each
  with a middle finger tip (index 12) at a finite position, give a finite wingspan.
\<close>

theorem subject_count_gating:
  assumes "\<not> paused v" and "\<not> ended v" and "currentTime v \<noteq> lastVideoTime st"
    and "landmarks r = Some hands"
  shows "(length hands = 0 \<or> length hands = 1 \<or> length hands = 3 \<longrightarrow>
            (\<exists>st'. detectHands_wingspan v r st = Inr st' \<and> wingspan st' = None)) \<and>
         (length hands = 2 \<and> 0 < videoWidth v \<and>
          index (hands ! 0) 12 = Some a \<and> index (hands ! 1) 12 = Some b \<and>
          finite_position a \<and> finite_position b \<longrightarrow>
            (\<exists>st' cm. detectHands_wingspan v r st = Inr st' \<and> wingspan st' = Some (Fin cm)))"
proof (intro conjI impI)
  assume "length hands = 0 \<or> length hands = 1 \<or> length hands = 3"
  then have "length hands \<noteq> 2" by auto
  then show "\<exists>st'. detectHands_wingspan v r st = Inr st' \<and> wingspan st' = None"
    unfolding detectHands_wingspan_fresh [OF assms] by simp
next
  assume two: "length hands = 2 \<and> 0 < videoWidth v \<and>
          index (hands ! 0) 12 = Some a \<and> index (hands ! 1) 12 = Some b \<and>
          finite_position a \<and> finite_position b"
  then obtain a1 a2 a3 b1 b2 b3 where
    ab: "a = \<lparr>x = Fin a1, y = Fin a2, z = Fin a3\<rparr>" "b = \<lparr>x = Fin b1, y = Fin b2, z = Fin b3\<rparr>"
    using finite_position_Fin [of a] finite_position_Fin [of b] by auto
  from two show "\<exists>st' cm. detectHands_wingspan v r st = Inr st' \<and> wingspan st' = Some (Fin cm)"
    unfolding detectHands_wingspan_fresh [OF assms]
    by (simp add: ab distancePixels_Fin wingspanCm_fixed_Fin)
qed

theorem subject_count_gating_witness:
  "\<not> paused (playing 1280 720 0) \<and> \<not> ended (playing 1280 720 0) \<and>
   currentTime (playing 1280 720 0) \<noteq> lastVideoTime initial \<and>
   landmarks (detected [hand_at (1 / 2) (1 / 2)]) = Some [hand_at (1 / 2) (1 / 2)] \<and>
   length [hand_at (1 / 2) (1 / 2)] = 1 \<and>
   (\<exists>st'. detectHands_wingspan (playing 1280 720 0) (detected [hand_at (1 / 2) (1 / 2)])
       initial = Inr st' \<and> wingspan st' = None) \<and>
   landmarks (detected [hand_at (1 / 4) (1 / 2), hand_at (3 / 4) (1 / 2)]) =
     Some [hand_at (1 / 4) (1 / 2), hand_at (3 / 4) (1 / 2)] \<and>
   length [hand_at (1 / 4) (1 / 2), hand_at (3 / 4) (1 / 2)] = 2 \<and>
   0 < videoWidth (playing 1280 720 0) \<and>
   index ([hand_at (1 / 4) (1 / 2), hand_at (3 / 4) (1 / 2)] ! 0) 12 = Some (point (1 / 4) (1 / 2)) \<and>
   index ([hand_at (1 / 4) (1 / 2), hand_at (3 / 4) (1 / 2)] ! 1) 12 = Some (point (3 / 4) (1 / 2)) \<and>
   finite_position (point (1 / 4) (1 / 2)) \<and> finite_position (point (3 / 4) (1 / 2)) \<and>
   (\<exists>st' cm. detectHands_wingspan (playing 1280 720 0)
       (detected [hand_at (1 / 4) (1 / 2), hand_at (3 / 4) (1 / 2)]) initial = Inr st' \<and>
      wingspan st' = Some (Fin cm))"
proof -
  note one = subject_count_gating [OF playing_fresh [of 1280 720] detected_sel,
      where hands = "[hand_at (1 / 2) (1 / 2)]", THEN conjunct1]
  note two = subject_count_gating [OF playing_fresh [of 1280 720] detected_sel,
      where hands = "[hand_at (1 / 4) (1 / 2), hand_at (3 / 4) (1 / 2)]"
        and a = "point (1 / 4) (1 / 2)" and b = "point (3 / 4) (1 / 2)", THEN conjunct2]
  have none: "\<exists>st'. detectHands_wingspan (playing 1280 720 0)
       (detected [hand_at (1 / 2) (1 / 2)]) initial = Inr st' \<and> wingspan st' = None"
    using one by simp
  have some: "\<exists>st' cm. detectHands_wingspan (playing 1280 720 0)
       (detected [hand_at (1 / 4) (1 / 2), hand_at (3 / 4) (1 / 2)]) initial = Inr st' \<and>
      wingspan st' = Some (Fin cm)"
    using two by (simp add: playing_sel hand_at_index finite_position_point)
  show ?thesis
    using none some
    by (simp add: playing_sel initial_sel detected_sel hand_at_index finite_position_point)
qed

section \<open>Fixed-distance mode: linearity\<close>

text \<open>
  Claim C6. On a frame of positive width the length derived at the fixed distance is
  linear in the pixel separation: twice the separation gives twice the length (and
  \<open>k\<close> times the separation \<open>k\<close> times the length), and the separation zero gives the
  length zero. A processed frame with two hands stores the length derived from the
  separation of the two middle finger tips, so coinciding tips store the number 0,
  not \<open>null\<close>.
\<close>

theorem fixed_distance_linear:
  assumes "0 < w"
  shows "wingspanCm_fixed (Fin (2 * p)) w = Fin 2 * wingspanCm_fixed (Fin p) w \<and>
         wingspanCm_fixed (Fin (k * p)) w = Fin k * wingspanCm_fixed (Fin p) w \<and>
         wingspanCm_fixed (Fin 0) w = Fin 0 \<and>
         (\<not> paused v \<and> \<not> ended v \<and> currentTime v \<noteq> lastVideoTime st \<and>
          videoWidth v = w \<and> landmarks r = Some [hand1, hand2] \<and>
          index hand1 12 = Some a \<and> index hand2 12 = Some b \<and>
          distancePixels a b w (videoHeight v) = Fin q \<longrightarrow>
            (\<exists>st'. detectHands_wingspan v r st = Inr st' \<and>
               wingspan st' = Some (wingspanCm_fixed (Fin q) w)))"
proof (intro conjI impI)
  assume h: "\<not> paused v \<and> \<not> ended v \<and> currentTime v \<noteq> lastVideoTime st \<and>
          videoWidth v = w \<and> landmarks r = Some [hand1, hand2] \<and>
          index hand1 12 = Some a \<and> index hand2 12 = Some b \<and>
          distancePixels a b w (videoHeight v) = Fin q"
  then have tick: "\<not> paused v" "\<not> ended v" "currentTime v \<noteq> lastVideoTime st"
    "landmarks r = Some [hand1, hand2]" "index hand1 12 = Some a" "index hand2 12 = Some b"
    by simp_all
  from h show "\<exists>st'. detectHands_wingspan v r st = Inr st' \<and>
               wingspan st' = Some (wingspanCm_fixed (Fin q) w)"
    unfolding detectHands_wingspan_two [OF tick] by auto
next
  show "wingspanCm_fixed (Fin (2 * p)) w = Fin 2 * wingspanCm_fixed (Fin p) w"
    using assms by (simp add: wingspanCm_fixed_Fin)
next
  show "wingspanCm_fixed (Fin (k * p)) w = Fin k * wingspanCm_fixed (Fin p) w"
    using assms by (simp add: wingspanCm_fixed_Fin)
next
  show "wingspanCm_fixed (Fin 0) w = Fin 0"
    using assms by (simp add: wingspanCm_fixed_Fin)
qed

theorem fixed_distance_linear_witness:
  "(0::nat) < 1280 \<and>
   wingspanCm_fixed (Fin (2 * 640)) 1280 = Fin 2 * wingspanCm_fixed (Fin 640) 1280 \<and>
   wingspanCm_fixed (Fin (3 * 640)) 1280 = Fin 3 * wingspanCm_fixed (Fin 640) 1280 \<and>
   wingspanCm_fixed (Fin 640) 1280 = Fin (150 * tan (7 * pi / 36)) \<and>
   wingspanCm_fixed (Fin 0) 1280 = Fin 0 \<and>
   \<not> paused (playing 1280 720 0) \<and> \<not> ended (playing 1280 720 0) \<and>
   currentTime (playing 1280 720 0) \<noteq> lastVideoTime initial \<and>
   videoWidth (playing 1280 720 0) = 1280 \<and>
   landmarks (detected [hand_at (1 / 2) (1 / 2), hand_at (1 / 2) (1 / 2)]) =
     Some [hand_at (1 / 2) (1 / 2), hand_at (1 / 2) (1 / 2)] \<and>
   index (hand_at (1 / 2) (1 / 2)) 12 = Some (point (1 / 2) (1 / 2)) \<and>
   distancePixels (point (1 / 2) (1 / 2)) (point (1 / 2) (1 / 2)) 1280
     (videoHeight (playing 1280 720 0)) = Fin 0 \<and>
   (\<exists>st'. detectHands_wingspan (playing 1280 720 0)
       (detected [hand_at (1 / 2) (1 / 2), hand_at (1 / 2) (1 / 2)]) initial = Inr st' \<and>
      wingspan st' = Some (Fin 0))"
proof -
  have w: "(0::nat) < 1280" by simp
  note lin = fixed_distance_linear [OF w, where p = 640 and k = 3
      and v = "playing 1280 720 0" and st = initial
      and r = "detected [hand_at (1 / 2) (1 / 2), hand_at (1 / 2) (1 / 2)]"
      and ?hand1.0 = "hand_at (1 / 2) (1 / 2)" and ?hand2.0 = "hand_at (1 / 2) (1 / 2)"
      and a = "point (1 / 2) (1 / 2)" and b = "point (1 / 2) (1 / 2)" and q = 0]
  have zero: "wingspanCm_fixed (Fin 0) 1280 = Fin 0"
    using lin by simp
  have tick: "\<exists>st'. detectHands_wingspan (playing 1280 720 0)
       (detected [hand_at (1 / 2) (1 / 2), hand_at (1 / 2) (1 / 2)]) initial = Inr st' \<and>
      wingspan st' = Some (Fin 0)"
    using lin [THEN conjunct2, THEN conjunct2, THEN conjunct2]
    by (simp add: playing_sel initial_sel detected_sel hand_at_index horizontal_fingers zero)
  have at640: "wingspanCm_fixed (Fin 640) 1280 = Fin (150 * tan (7 * pi / 36))"
    by (simp add: wingspanCm_fixed_Fin)
  show ?thesis
    using lin [THEN conjunct1] lin [THEN conjunct2, THEN conjunct1] zero tick at640
    by (simp add: playing_sel initial_sel detected_sel hand_at_index horizontal_fingers)
qed

section \<open>Known-reference mode: the reference scenario\<close>

text \<open>
  Claim C7, as stated, fails. For a 1280 pixel wide frame the focal length is
  \<open>640 / tan (7 * pi / 36)\<close>, which is below 914.1 and so not about 914.9, and the
  scenario's tick stores the wingspan 180, not about 179.6: the focal length cancels
  and 1024 pixels are four times the 256 pixels of the 45 cm shoulders.
\<close>

theorem scenario_counterexample:
  "focalLengthPixels 1280 = Fin (640 / tan (7 * pi / 36)) \<and>
   640 / tan (7 * pi / 36) < 9141 / 10 \<and>
   detectPose (playing 1280 720 0) (detected [scenario_pose]) initial =
     Inr \<lparr>wingspan = Some (Fin 180),
          distance = Some (Fin (45 * (640 / tan (7 * pi / 36)) / 256)),
          lastVideoTime = 0, canvas_width = 1280, canvas_height = 720,
          detectForVideo_calls = 1\<rparr>"
  using focal_1280 focal_1280_bounds(2) scenario_tick by simp

text \<open>
  Claim C7, amended. In the scenario the shoulders are 256 pixels and the wrists 1024
  pixels apart, the focal length lies between 914.01 and 914.02 pixels, the stored
  distance between 160.66 and 160.67 cm, and the stored wingspan is 180 cm.
\<close>

theorem scenario_values:
  "\<exists>f d. focalLengthPixels 1280 = Fin f \<and> 91401 / 100 < f \<and> f < 91402 / 100 \<and>
     shoulderWidthPixels (point (2 / 5) (1 / 2)) (point (3 / 5) (1 / 2)) 1280 720 = Fin 256 \<and>
     wingspanPixels (point (1 / 10) (1 / 2)) (point (9 / 10) (1 / 2)) 1280 720 = Fin 1024 \<and>
     detectPose (playing 1280 720 0) (detected [scenario_pose]) initial =
       Inr \<lparr>wingspan = Some (Fin 180), distance = Some (Fin d),
            lastVideoTime = 0, canvas_width = 1280, canvas_height = 720,
            detectForVideo_calls = 1\<rparr> \<and>
     16066 / 100 < d \<and> d < 16067 / 100"
proof (intro exI conjI)
  show "focalLengthPixels 1280 = Fin (640 / tan (7 * pi / 36))" by (rule focal_1280)
  show "91401 / 100 < 640 / tan (7 * pi / 36)" by (rule focal_1280_bounds)
  show "640 / tan (7 * pi / 36) < 91402 / 100" by (rule focal_1280_bounds)
  show "shoulderWidthPixels (point (2 / 5) (1 / 2)) (point (3 / 5) (1 / 2)) 1280 720 = Fin 256"
    by (simp add: horizontal_shoulders)
  show "wingspanPixels (point (1 / 10) (1 / 2)) (point (9 / 10) (1 / 2)) 1280 720 = Fin 1024"
    by (simp add: horizontal_wrists)
  show "detectPose (playing 1280 720 0) (detected [scenario_pose]) initial =
       Inr \<lparr>wingspan = Some (Fin 180),
            distance = Some (Fin (45 * (640 / tan (7 * pi / 36)) / 256)),
            lastVideoTime = 0, canvas_width = 1280, canvas_height = 720,
            detectForVideo_calls = 1\<rparr>" by (rule scenario_tick)
  show "16066 / 100 < 45 * (640 / tan (7 * pi / 36)) / 256" by (rule distance_scenario_bounds)
  show "45 * (640 / tan (7 * pi / 36)) / 256 < 16067 / 100" by (rule distance_scenario_bounds)
qed

section \<open>Known-reference mode: distance and wingspan change together\<close>

text \<open>
  Claim C8, as stated, fails in its promise of finite values. For a pose whose
  shoulders coincide and whose wrists are apart, the tick stores \<open>Infinity\<close> for the
  distance and for the wingspan.
\<close>

theorem infinite_pair_counterexample:
  "detectPose (playing 1280 720 0)
     (detected [coincident_pose [15 := point (1 / 10) (1 / 2), 16 := point (9 / 10) (1 / 2)]])
     initial =
     Inr \<lparr>wingspan = Some PInf, distance = Some PInf, lastVideoTime = 0,
          canvas_width = 1280, canvas_height = 720, detectForVideo_calls = 1\<rparr> \<and>
   \<not> isFinite PInf"
  using wrists_apart_tick by simp

text \<open>
  Claim C8, amended. A tick of the pose page that returns keeps the invariant that
  the distance is unavailable exactly when the wingspan is. A processed frame either
  resets both to unavailable or sets both to new numbers; the numbers are finite when
  the frame width and the shoulder separation are not zero and the four landmarks
  read are at finite positions.
\<close>

theorem measurement_pair:
  assumes "detectPose v r st = Inr st'"
  shows "((distance st = None) = (wingspan st = None) \<longrightarrow>
            (distance st' = None) = (wingspan st' = None)) \<and>
         (\<not> paused v \<and> \<not> ended v \<and> currentTime v \<noteq> lastVideoTime st \<longrightarrow>
            (distance st' = None \<and> wingspan st' = None) \<or>
            (\<exists>d w. distance st' = Some d \<and> wingspan st' = Some w)) \<and>
         (\<not> paused v \<and> \<not> ended v \<and> currentTime v \<noteq> lastVideoTime st \<and>
          landmarks r = Some (lms # rest) \<and> 0 < videoWidth v \<and>
          index lms 11 = Some ls \<and> index lms 12 = Some rs \<and>
          index lms 15 = Some lw \<and> index lms 16 = Some rw \<and>
          finite_position ls \<and> finite_position rs \<and>
          finite_position lw \<and> finite_position rw \<and>
          shoulderWidthPixels ls rs (videoWidth v) (videoHeight v) \<noteq> Fin 0 \<longrightarrow>
            (\<exists>d w. distance st' = Some (Fin d) \<and> wingspan st' = Some (Fin w)))"
proof (intro conjI impI)
  assume "(distance st = None) = (wingspan st = None)"
  then show "(distance st' = None) = (wingspan st' = None)"
    using assms
    by (auto simp: detectPose_def Let_def dest!: measurePose_Inr
        split: if_splits option.splits list.splits)
next
  assume "\<not> paused v \<and> \<not> ended v \<and> currentTime v \<noteq> lastVideoTime st"
  then show "(distance st' = None \<and> wingspan st' = None) \<or>
            (\<exists>d w. distance st' = Some d \<and> wingspan st' = Some w)"
    using assms
    by (auto simp: detectPose_def Let_def dest!: measurePose_Inr
        split: if_splits option.splits list.splits)
next
  assume h: "\<not> paused v \<and> \<not> ended v \<and> currentTime v \<noteq> lastVideoTime st \<and>
          landmarks r = Some (lms # rest) \<and> 0 < videoWidth v \<and>
          index lms 11 = Some ls \<and> index lms 12 = Some rs \<and>
          index lms 15 = Some lw \<and> index lms 16 = Some rw \<and>
          finite_position ls \<and> finite_position rs \<and>
          finite_position lw \<and> finite_position rw \<and>
          shoulderWidthPixels ls rs (videoWidth v) (videoHeight v) \<noteq> Fin 0"
  then have tick: "\<not> paused v" "\<not> ended v" "currentTime v \<noteq> lastVideoTime st"
    "landmarks r = Some (lms # rest)"
    "index lms 11 = Some ls" "index lms 12 = Some rs"
    "index lms 15 = Some lw" "index lms 16 = Some rw"
    and w: "0 < videoWidth v"
    by simp_all
  from h obtain a1 a2 a3 b1 b2 b3 where
    sh: "ls = \<lparr>x = Fin a1, y = Fin a2, z = Fin a3\<rparr>" "rs = \<lparr>x = Fin b1, y = Fin b2, z = Fin b3\<rparr>"
    using finite_position_Fin [of ls] finite_position_Fin [of rs] by auto
  from h obtain c1 c2 c3 e1 e2 e3 where
    wr: "lw = \<lparr>x = Fin c1, y = Fin c2, z = Fin c3\<rparr>" "rw = \<lparr>x = Fin e1, y = Fin e2, z = Fin e3\<rparr>"
    using finite_position_Fin [of lw] finite_position_Fin [of rw] by auto
  define p where "p = sqrt (((b1 - a1) * real (videoWidth v))\<^sup>2
                          + ((b2 - a2) * real (videoHeight v))\<^sup>2)"
  have p: "shoulderWidthPixels ls rs (videoWidth v) (videoHeight v) = Fin p"
    unfolding sh p_def by (rule shoulderWidthPixels_Fin)
  with h have p0: "p \<noteq> 0" by auto
  have "detectPose v r st = Inr st'" by (rule assms)
  then show "\<exists>d w. distance st' = Some (Fin d) \<and> wingspan st' = Some (Fin w)"
    unfolding detectPose_measured [OF tick] p calculatedDistance_Fin [OF w p0]
    unfolding wr wingspanPixels_Fin wingspanCm_Fin [OF w]
    by auto
qed

theorem measurement_pair_witness:
  "detectPose (playing 1280 720 0) (detected [scenario_pose]) initial =
     Inr \<lparr>wingspan = Some (Fin 180),
          distance = Some (Fin (45 * (640 / tan (7 * pi / 36)) / 256)),
          lastVideoTime = 0, canvas_width = 1280, canvas_height = 720,
          detectForVideo_calls = 1\<rparr> \<and>
   (distance initial = None) = (wingspan initial = None) \<and>
   \<not> paused (playing 1280 720 0) \<and> \<not> ended (playing 1280 720 0) \<and>
   currentTime (playing 1280 720 0) \<noteq> lastVideoTime initial \<and>
   landmarks (detected [scenario_pose]) = Some [scenario_pose] \<and>
   0 < videoWidth (playing 1280 720 0) \<and>
   index scenario_pose 11 = Some (point (2 / 5) (1 / 2)) \<and>
   index scenario_pose 12 = Some (point (3 / 5) (1 / 2)) \<and>
   index scenario_pose 15 = Some (point (1 / 10) (1 / 2)) \<and>
   index scenario_pose 16 = Some (point (9 / 10) (1 / 2)) \<and>
   finite_position (point (2 / 5) (1 / 2)) \<and> finite_position (point (3 / 5) (1 / 2)) \<and>
   finite_position (point (1 / 10) (1 / 2)) \<and> finite_position (point (9 / 10) (1 / 2)) \<and>
   shoulderWidthPixels (point (2 / 5) (1 / 2)) (point (3 / 5) (1 / 2))
     (videoWidth (playing 1280 720 0)) (videoHeight (playing 1280 720 0)) \<noteq> Fin 0 \<and>
   (\<exists>d w. Some (Fin (45 * (640 / tan (7 * pi / 36)) / 256)) = Some (Fin d) \<and>
      Some (Fin 180) = Some (Fin w))"
  using measurement_pair [OF scenario_tick, where lms = scenario_pose and rest = "[]"
      and ls = "point (2 / 5) (1 / 2)" and rs = "point (3 / 5) (1 / 2)"
      and lw = "point (1 / 10) (1 / 2)" and rw = "point (9 / 10) (1 / 2)"]
  by (simp add: playing_fresh scenario_tick scenario_pose_index finite_position_point
      horizontal_shoulders detected_sel playing_sel initial_sel)

section \<open>Frame gate: a video surface without pixels\<close>

text \<open>
  Claim C9, as stated, fails. The loops test only \<open>paused\<close> and \<open>ended\<close>. A playing
  video of width and height 0 with a new timestamp is processed: detection is called,
  and when the detector reports a pose the distance and the wingspan become \<open>NaN\<close>.
\<close>

theorem zero_dimensions_counterexample:
  "detectPose (playing 0 0 0) (detected []) initial =
     Inr \<lparr>wingspan = None, distance = None, lastVideoTime = 0,
          canvas_width = 0, canvas_height = 0, detectForVideo_calls = 1\<rparr> \<and>
   detectPose (playing 0 0 0) (detected [scenario_pose]) initial =
     Inr \<lparr>wingspan = Some NaN, distance = Some NaN, lastVideoTime = 0,
          canvas_width = 0, canvas_height = 0, detectForVideo_calls = 1\<rparr>"
proof
  have fresh: "\<not> paused (playing 0 0 0)" "\<not> ended (playing 0 0 0)"
    "currentTime (playing 0 0 0) \<noteq> lastVideoTime initial"
    by (simp_all add: playing_def initial_def)
  show "detectPose (playing 0 0 0) (detected []) initial =
     Inr \<lparr>wingspan = None, distance = None, lastVideoTime = 0,
          canvas_width = 0, canvas_height = 0, detectForVideo_calls = 1\<rparr>"
    unfolding detectPose_fresh [OF fresh]
    by (simp add: detected_def playing_def initial_def)
  show "detectPose (playing 0 0 0) (detected [scenario_pose]) initial =
     Inr \<lparr>wingspan = Some NaN, distance = Some NaN, lastVideoTime = 0,
          canvas_width = 0, canvas_height = 0, detectForVideo_calls = 1\<rparr>"
    unfolding detectPose_fresh [OF fresh]
    by (simp add: detected_def playing_def initial_def scenario_measure focalLengthPixels_eq
        calculatedDistance_def wingspanCm_def ASSUMED_SHOULDER_WIDTH_CM_def signed_inf_def)
qed

text \<open>
  Claim C9, amended. A tick on a paused or ended video, whatever its pixel dimensions,
  is a no-op on all three pages: it returns, calls no detection and leaves the whole
  state unchanged.
\<close>

theorem idle_tick_is_noop:
  assumes "paused v \<or> ended v"
  shows "detectPose v r st = Inr st \<and> detectHands v r st = Inr st \<and>
         detectHands_wingspan v r st = Inr st"
  using assms by (simp add: detectPose_idle detectHands_idle detectHands_wingspan_idle)

theorem idle_tick_is_noop_witness:
  "(paused \<lparr>paused = True, ended = False, videoWidth = 0, videoHeight = 0, currentTime = 0\<rparr>
      \<or> ended \<lparr>paused = True, ended = False, videoWidth = 0, videoHeight = 0, currentTime = 0\<rparr>) \<and>
   detectPose \<lparr>paused = True, ended = False, videoWidth = 0, videoHeight = 0, currentTime = 0\<rparr>
     (detected [scenario_pose]) initial = Inr initial \<and>
   detectHands \<lparr>paused = True, ended = False, videoWidth = 0, videoHeight = 0, currentTime = 0\<rparr>
     (detected [scenario_pose]) initial = Inr initial \<and>
   detectHands_wingspan
     \<lparr>paused = True, ended = False, videoWidth = 0, videoHeight = 0, currentTime = 0\<rparr>
     (detected [scenario_pose]) initial = Inr initial"
  using idle_tick_is_noop
    [of "\<lparr>paused = True, ended = False, videoWidth = 0, videoHeight = 0, currentTime = 0\<rparr>"
      "detected [scenario_pose]" initial]
  by simp

section \<open>Hand-distance page: the reported distance\<close>

text \<open>
  Claim C10. On a processed frame of positive width with exactly two hands whose
  middle finger tips are at finite positions, the hand-distance page stores 50 times
  the three-dimensional pixel separation of the tips (depth scaled by the frame
  width) divided by the frame width. Neither the field of view nor a focal length
  occurs in it.
\<close>

theorem hand_distance_formula:
  assumes "\<not> paused v" and "\<not> ended v" and "currentTime v \<noteq> lastVideoTime st"
    and "landmarks r = Some [hand1, hand2]"
    and "index hand1 12 = Some \<lparr>x = Fin a1, y = Fin a2, z = Fin a3\<rparr>"
    and "index hand2 12 = Some \<lparr>x = Fin b1, y = Fin b2, z = Fin b3\<rparr>"
    and "0 < videoWidth v"
  shows "\<exists>st'. detectHands v r st = Inr st' \<and>
           distance st' = Some (Fin (50 *
             sqrt (((b1 - a1) * real (videoWidth v))\<^sup>2 + ((b2 - a2) * real (videoHeight v))\<^sup>2
                   + ((b3 - a3) * real (videoWidth v))\<^sup>2) / real (videoWidth v)))"
  unfolding detectHands_fresh [OF assms(1-4)]
  using assms(5-7) by (simp add: distanceCm_Fin)

theorem hand_distance_formula_witness:
  "\<not> paused (playing 1280 720 0) \<and> \<not> ended (playing 1280 720 0) \<and>
   currentTime (playing 1280 720 0) \<noteq> lastVideoTime initial \<and>
   landmarks (detected [hand_at (1 / 4) (1 / 2), hand_at (3 / 4) (1 / 2)]) =
     Some [hand_at (1 / 4) (1 / 2), hand_at (3 / 4) (1 / 2)] \<and>
   index (hand_at (1 / 4) (1 / 2)) 12 = Some \<lparr>x = Fin (1 / 4), y = Fin (1 / 2), z = Fin 0\<rparr> \<and>
   index (hand_at (3 / 4) (1 / 2)) 12 = Some \<lparr>x = Fin (3 / 4), y = Fin (1 / 2), z = Fin 0\<rparr> \<and>
   0 < videoWidth (playing 1280 720 0) \<and>
   (\<exists>st'. detectHands (playing 1280 720 0)
       (detected [hand_at (1 / 4) (1 / 2), hand_at (3 / 4) (1 / 2)]) initial = Inr st' \<and>
      distance st' = Some (Fin 25))"
proof -
  have at: "index (hand_at (1 / 4) (1 / 2)) 12 = Some \<lparr>x = Fin (1 / 4), y = Fin (1 / 2), z = Fin 0\<rparr>"
    "index (hand_at (3 / 4) (1 / 2)) 12 = Some \<lparr>x = Fin (3 / 4), y = Fin (1 / 2), z = Fin 0\<rparr>"
    by (simp_all add: hand_at_index point_def)
  have w: "0 < videoWidth (playing 1280 720 0)"
    by (simp add: playing_sel)
  have "\<exists>st'. detectHands (playing 1280 720 0)
       (detected [hand_at (1 / 4) (1 / 2), hand_at (3 / 4) (1 / 2)]) initial = Inr st' \<and>
      distance st' = Some (Fin 25)"
    using hand_distance_formula [OF playing_fresh [of 1280 720] detected_sel at w]
    by (simp add: playing_sel sqrt_409600)
  then show ?thesis
    using at w by (simp add: playing_fresh detected_sel)
qed

end
